theory Spec2Isabelle
  imports Main
begin

section \<open>AgentShell: the session engine of \<open>AgentShell.py\<close>\<close>

text \<open>
  Every command of \<open>AgentShell.py\<close> is a separate run of the interpreter. What survives
  between runs is the working directory (the two named pipes and the session file), the
  process table and the clock. The model threads one \<open>world\<close> value through every
  function: a function of the source that returns \<open>r\<close> becomes a function from the world
  to \<open>r\<close> and the new world, and a raised exception is the \<open>Inl\<close> branch of the result.
\<close>

subsection \<open>The environment\<close>

type_synonym bytes = string

text \<open>Python exceptions that the modelled code can meet.\<close>

datatype exn =
    FileNotFoundError
  | FileExistsError
  | PermissionError
  | IsADirectoryError
  | UnicodeDecodeError
  | ProcessLookupError
  | ValueError
  | TypeError
  | SystemExit nat

text \<open>
  A named pipe: whether some process holds it open for reading and for writing, the bytes
  written and not yet read, and the writes its writer will still make, each with the time
  (milliseconds) at which it happens.
\<close>

record pipe =
  reader :: bool
  writer :: bool
  buffered :: bytes
  pending :: "(nat \<times> bytes) list"

text \<open>What a name in the working directory can be.\<close>

datatype node = Fifo pipe | Regular bytes | Directory

text \<open>
  The session file is read with \<open>json.load\<close> and written with \<open>json.dump\<close>. Its content
  is either a JSON object, of which the model keeps the keys the source reads (\<open>pid\<close>,
  \<open>command\<close>, each possibly missing) and \<open>started_at\<close>, or something that
  \<open>json.load\<close> or the later \<open>.get\<close> rejects. \<open>Record\<close> is the object whose \<open>pid\<close>
  is an integer, \<open>null\<close> or missing (a JSON boolean counts as the integer that it is in
  Python); \<open>OddRecord\<close> is the object whose \<open>pid\<close> is any other JSON value, kept by its
  truth value in Python.
\<close>

datatype session_content =
    Unparsable
  | Record "int option" "string option" nat
  | OddRecord bool "string option" nat

datatype session_node = SessionDir | SessionFile session_content

text \<open>
  The values that the variable \<open>pid\<close> of \<open>check_status\<close> and \<open>end_interaction\<close> can
  hold: \<open>None\<close>, an integer, or what an \<open>OddRecord\<close> holds.
\<close>

datatype pyvalue = PyNone | PyInt int | PyOther bool

text \<open>
  For a process identifier that it accepts, \<open>psutil\<close> reports failure through the three
  exception classes that the source names.
\<close>

datatype psutil_error = NoSuchProcess | AccessDenied | ZombieProcess

text \<open>
  A process handle, as \<open>psutil.Process(pid)\<close> returns it: what each method the source
  calls would answer.
\<close>

record process =
  is_running :: bool
  status :: "psutil_error + string"
  cmdline :: "psutil_error + string list"
  terminate :: "psutil_error option"

datatype signal = SIGTERM | SIGKILL

text \<open>
  The lines the program prints, one constructor for each \<open>print\<close> of the source, with
  the values that the line interpolates. \<open>Received\<close> carries \<open>output\<close> as it is, before
  the \<open>strip\<close> of the format string.
\<close>

datatype line =
    SessionReady
  | NoCommandSpecified
  | Started int string
  | Sent string
  | ErrorSending exn
  | Received string
  | NoOutputTimeout
  | ErrorReceiving exn
  | StatusHeader
  | InputChannelLine bool
  | OutputChannelLine bool
  | CommandLine pyvalue bool
  | RunningLine string
  | CommandLineLine string
  | CommandNotSpecified
  | OverallStatus string
  | Terminated pyvalue
  | ForceTerminated pyvalue
  | FailedToTerminate pyvalue
  | SessionEnded
  | ErrorEnding exn
  | Usage
  | MissingInput
  | InvalidPidFormat string
  | UnknownAction string
  | AvailableActions

text \<open>
  The world of a run. \<open>self_pid\<close> and \<open>self_pgid\<close> are the process identifier and the
  process group of the run itself. \<open>py_int\<close> is the interpreter's \<open>int\<close> on strings
  (\<open>None\<close> when it raises \<open>ValueError\<close>): which strings it accepts depends on the
  interpreter (its Unicode tables, its limit on the number of digits), so the model takes
  it from the world and assumes nothing about it.
\<close>

record world =
  input_pipe :: "node option"
  output_pipe :: "node option"
  session_file :: "session_node option"
  cwd_writable :: bool
  now :: nat
  procs :: "int \<Rightarrow> psutil_error + process"
  kill_ok :: "int \<Rightarrow> bool"
  signals :: "(int \<times> signal) list"
  zsh :: "int option"
  programs :: "string \<Rightarrow> bool"
  self_pid :: int
  self_pgid :: int
  py_int :: "string \<Rightarrow> int option"
  stdout :: "line list"

definition print :: "line \<Rightarrow> world \<Rightarrow> world" where
  "print l w = w\<lparr>stdout := stdout w @ [l]\<rparr>"

text \<open>\<open>os.path.exists\<close> is true of whatever the name denotes.\<close>

definition path_exists :: "'a option \<Rightarrow> bool" where
  "path_exists n = (n \<noteq> None)"

text \<open>\<open>os.mkfifo\<close>: the name must be free and the directory writable.\<close>

definition os_mkfifo :: "bool \<Rightarrow> node option \<Rightarrow> exn + node option" where
  "os_mkfifo writable n =
     (if n \<noteq> None then Inl FileExistsError
      else if \<not> writable then Inl PermissionError
      else Inr (Some (Fifo \<lparr>reader = False, writer = False, buffered = [], pending = []\<rparr>)))"

text \<open>\<open>os.unlink\<close>: refuses a missing name, a directory, and an unwritable directory.\<close>

definition os_unlink :: "bool \<Rightarrow> node option \<Rightarrow> exn + node option" where
  "os_unlink writable n =
     (case n of
        None \<Rightarrow> Inl FileNotFoundError
      | Some Directory \<Rightarrow> Inl IsADirectoryError
      | Some _ \<Rightarrow> if writable then Inr None else Inl PermissionError)"

definition os_unlink_session :: "bool \<Rightarrow> session_node option \<Rightarrow> exn + session_node option" where
  "os_unlink_session writable n =
     (case n of
        None \<Rightarrow> Inl FileNotFoundError
      | Some SessionDir \<Rightarrow> Inl IsADirectoryError
      | Some (SessionFile _) \<Rightarrow> if writable then Inr None else Inl PermissionError)"

subsection \<open>\<open>setup_interaction\<close>\<close>

definition setup_interaction :: "world \<Rightarrow> (exn + unit) \<times> world" where
  "setup_interaction w =
     (case (if \<not> path_exists (input_pipe w)
            then map_sum id (\<lambda>n. w\<lparr>input_pipe := n\<rparr>) (os_mkfifo (cwd_writable w) (input_pipe w))
            else Inr w) of
        Inl e \<Rightarrow> (Inl e, w)
      | Inr w1 \<Rightarrow>
          (case (if \<not> path_exists (output_pipe w1)
                 then map_sum id (\<lambda>n. w1\<lparr>output_pipe := n\<rparr>)
                        (os_mkfifo (cwd_writable w1) (output_pipe w1))
                 else Inr w1) of
             Inl e \<Rightarrow> (Inl e, w1)
           | Inr w2 \<Rightarrow> (Inr (), print SessionReady w2)))"

subsection \<open>\<open>start_interactive_command\<close>\<close>

text \<open>
  \<open>subprocess.Popen(full_cmd, shell=True, executable="/bin/zsh")\<close> executes the shell and
  hands it the command line as text. It raises only when the shell itself cannot be
  executed; whether the command names a program is found out later, by the shell, in the
  child. The field \<open>zsh\<close> of the world says whether the shell can be executed and which
  process identifier the child would get; the field \<open>programs\<close> says of a command line
  whether the shell will find the program it names, and nothing in the source asks for it.
\<close>

definition popen :: "string \<Rightarrow> world \<Rightarrow> (exn + int) \<times> world" where
  "popen full_cmd w =
     (case zsh w of
        None \<Rightarrow> (Inl FileNotFoundError, w)
      | Some p \<Rightarrow>
          (Inr p,
           w\<lparr>procs := (procs w)(p := Inr \<lparr>is_running = True, status = Inr ''sleeping'',
                                        cmdline = Inr [''/bin/zsh'', ''-c'', full_cmd],
                                        terminate = None\<rparr>),
             zsh := Some (p + 1)\<rparr>))"

text \<open>\<open>open(".agentshell_session.json", "w")\<close> followed by \<open>json.dump\<close>.\<close>

definition write_session :: "session_content \<Rightarrow> world \<Rightarrow> (exn + unit) \<times> world" where
  "write_session c w =
     (case session_file w of
        Some SessionDir \<Rightarrow> (Inl IsADirectoryError, w)
      | Some (SessionFile _) \<Rightarrow> (Inr (), w\<lparr>session_file := Some (SessionFile c)\<rparr>)
      | None \<Rightarrow>
          if cwd_writable w then (Inr (), w\<lparr>session_file := Some (SessionFile c)\<rparr>)
          else (Inl PermissionError, w))"

definition start_interactive_command :: "string option \<Rightarrow> world \<Rightarrow> (exn + int) \<times> world" where
  "start_interactive_command command w =
     (case command of
        None \<Rightarrow> (Inl (SystemExit 1), print NoCommandSpecified w)
      | Some cmd \<Rightarrow>
          (let full_cmd = cmd @ '' < input_pipe > output_pipe'' in
           case popen full_cmd w of
             (Inl e, w1) \<Rightarrow> (Inl e, w1)
           | (Inr p, w1) \<Rightarrow>
               (case write_session (Record (Some p) (Some cmd) (now w1)) w1 of
                  (Inl e, w2) \<Rightarrow> (Inl e, w2)
                | (Inr _, w2) \<Rightarrow> (Inr p, print (Started p cmd) w2))))"

subsection \<open>\<open>send_input\<close>\<close>

text \<open>
  \<open>open("input_pipe", "w")\<close> and the write that follows. A missing name is created as a
  regular file, a regular file is truncated, and a pipe without a reader blocks the
  \<open>open\<close> for as long as no reader comes: the result \<open>None\<close> is the call that never
  returns.
\<close>

definition write_input :: "bytes \<Rightarrow> world \<Rightarrow> ((exn + unit) \<times> world) option" where
  "write_input data w =
     (case input_pipe w of
        None \<Rightarrow>
          if cwd_writable w then Some (Inr (), w\<lparr>input_pipe := Some (Regular data)\<rparr>)
          else Some (Inl PermissionError, w)
      | Some Directory \<Rightarrow> Some (Inl IsADirectoryError, w)
      | Some (Regular _) \<Rightarrow> Some (Inr (), w\<lparr>input_pipe := Some (Regular data)\<rparr>)
      | Some (Fifo p) \<Rightarrow>
          if reader p
          then Some (Inr (), w\<lparr>input_pipe := Some (Fifo (p\<lparr>buffered := buffered p @ data\<rparr>))\<rparr>)
          else None)"

definition send_input :: "string \<Rightarrow> world \<Rightarrow> (unit \<times> world) option" where
  "send_input content w =
     (case write_input (content @ [CHR 0x0A]) w of
        None \<Rightarrow> None
      | Some (Inr _, w1) \<Rightarrow> Some ((), print (Sent content) w1)
      | Some (Inl e, w1) \<Rightarrow> Some ((), print (ErrorSending e) w1))"

subsection \<open>\<open>get_output\<close>\<close>

text \<open>
  A Python \<open>str\<close> is modelled by its UTF-8 encoding, so \<open>chunk.decode("utf-8")\<close> returns
  the bytes of the chunk when they are well-formed UTF-8 and raises otherwise.
\<close>

definition byte_in :: "nat \<Rightarrow> nat \<Rightarrow> char \<Rightarrow> bool" where
  "byte_in lo hi c = (lo \<le> of_char c \<and> (of_char c :: nat) \<le> hi)"

fun utf8_valid :: "bytes \<Rightarrow> bool" where
  "utf8_valid [] = True"
| "utf8_valid (b # bs) =
     (if byte_in 0 127 b then utf8_valid bs
      else if byte_in 194 223 b then
        (case bs of
           c1 # r \<Rightarrow> byte_in 128 191 c1 \<and> utf8_valid r
         | _ \<Rightarrow> False)
      else if byte_in 224 239 b then
        (case bs of
           c1 # c2 # r \<Rightarrow>
             byte_in (if of_char b = (224::nat) then 160 else 128)
                     (if of_char b = (237::nat) then 159 else 191) c1 \<and>
             byte_in 128 191 c2 \<and> utf8_valid r
         | _ \<Rightarrow> False)
      else if byte_in 240 244 b then
        (case bs of
           c1 # c2 # c3 # r \<Rightarrow>
             byte_in (if of_char b = (240::nat) then 144 else 128)
                     (if of_char b = (244::nat) then 143 else 191) c1 \<and>
             byte_in 128 191 c2 \<and> byte_in 128 191 c3 \<and> utf8_valid r
         | _ \<Rightarrow> False)
      else False)"

definition decode_utf8 :: "bytes \<Rightarrow> string option" where
  "decode_utf8 chunk = (if utf8_valid chunk then Some chunk else None)"

text \<open>
  \<open>os.read(fd, 4096)\<close> on a descriptor opened with \<open>O_NONBLOCK\<close>, at time \<open>t\<close>: the
  writes that are due by \<open>t\<close> have reached the pipe; the call returns at most 4096 of
  the bytes that wait there, the empty result when nothing waits and nobody holds the
  pipe open for writing, and raises \<open>BlockingIOError\<close> when nothing waits and a writer is
  attached.
\<close>

datatype read_result = Chunk bytes | Eof | BlockingIOError

definition deliver :: "nat \<Rightarrow> pipe \<Rightarrow> pipe" where
  "deliver t p =
     p\<lparr>buffered := buffered p @ concat (map snd (filter (\<lambda>(u, _). u \<le> t) (pending p))),
       pending := filter (\<lambda>(u, _). \<not> u \<le> t) (pending p)\<rparr>"

definition os_read :: "nat \<Rightarrow> pipe \<Rightarrow> read_result \<times> pipe" where
  "os_read t p =
     (let q = deliver t p in
      if buffered q \<noteq> [] then (Chunk (take 4096 (buffered q)), q\<lparr>buffered := drop 4096 (buffered q)\<rparr>)
      else if writer q then (BlockingIOError, q)
      else (Eof, q))"

text \<open>
  \<open>deliver\<close> and \<open>os_read\<close> describe the pipe while the descriptor of \<open>get_output\<close>
  is open, so that every write that falls due finds a reader. What fell due before, while
  no descriptor was open, is settled by \<open>open_fifo\<close>, the call
  \<open>os.open("output_pipe", os.O_RDONLY | os.O_NONBLOCK)\<close> at time \<open>t\<close>. A writer that holds
  the pipe open and writes while nobody holds it open for reading gets \<open>SIGPIPE\<close>: the
  write does not reach the pipe, the writer is gone, and with its descriptor the last one
  is closed, so the kernel drops what the pipe still held. A writer that does not hold the
  pipe open yet waits in its own \<open>open\<close> until a reader comes, and its writes arrive then.
\<close>

definition open_fifo :: "nat \<Rightarrow> pipe \<Rightarrow> pipe" where
  "open_fifo t p =
     (if writer p \<and> \<not> reader p \<and> filter (\<lambda>(u, _). u < t) (pending p) \<noteq> []
      then p\<lparr>writer := False, buffered := [], pending := []\<rparr>
      else p)"

text \<open>
  The descriptor is closed by \<open>os.close\<close>, or when the run ends. When nobody else holds
  the pipe open, the kernel drops what it still holds.
\<close>

definition close_fifo :: "pipe \<Rightarrow> pipe" where
  "close_fifo p = (if \<not> reader p \<and> \<not> writer p then p\<lparr>buffered := []\<rparr> else p)"

text \<open>
  The clock counts milliseconds. A read takes no time; \<open>time.sleep(0.1)\<close> takes
  \<open>poll_interval\<close>.
\<close>

definition timeout :: nat where
  "timeout = 3000"

definition poll_interval :: nat where
  "poll_interval = 100"

definition volume :: "pipe \<Rightarrow> nat" where
  "volume p = length (buffered p) + sum_list (map (\<lambda>(u, bs). length bs) (pending p))"

lemma volume_deliver: "volume (deliver t p) = volume p"
proof -
  have "sum_list (map (\<lambda>(u, bs). length bs) (filter (\<lambda>(u, _). u \<le> t) xs)) +
        sum_list (map (\<lambda>(u, bs). length bs) (filter (\<lambda>(u, _). \<not> u \<le> t) xs)) =
        sum_list (map (\<lambda>(u, bs). length bs) xs)" for xs :: "(nat \<times> bytes) list"
    by (induction xs) auto
  moreover have "length (concat (map snd xs)) = sum_list (map (\<lambda>(u, bs). length bs) xs)"
    for xs :: "(nat \<times> bytes) list"
    by (induction xs) auto
  ultimately show ?thesis
    unfolding volume_def deliver_def by (simp add: add.assoc)
qed

lemma os_read_chunk_volume: "(Chunk c, q) = os_read t p \<Longrightarrow> volume q < volume p"
proof -
  assume "(Chunk c, q) = os_read t p"
  then have r: "os_read t p = (Chunk c, q)" by simp
  then have ne: "buffered (deliver t p) \<noteq> []"
    and q: "q = (deliver t p)\<lparr>buffered := drop 4096 (buffered (deliver t p))\<rparr>"
    by (auto simp: os_read_def Let_def split: if_splits)
  from ne q have "volume q < volume (deliver t p)"
    by (simp add: volume_def)
  then show ?thesis by (simp add: volume_deliver)
qed

text \<open>
  The loop of \<open>get_output\<close>, with the values it reads and changes as arguments:
  \<open>start_time\<close>, \<open>output\<close>, the clock and the pipe behind the descriptor. It returns when
  the source leaves the loop (\<open>Inr output\<close>) or when an exception leaves the enclosing
  \<open>try\<close> (\<open>Inl\<close>), with the clock and the pipe as they are then.
\<close>

function read_loop :: "nat \<Rightarrow> string \<Rightarrow> nat \<Rightarrow> pipe \<Rightarrow> (exn + string) \<times> nat \<times> pipe" where
  "read_loop start_time output t p =
     (if t - start_time < timeout then
        (case os_read t p of
           (Chunk chunk, q) \<Rightarrow>
             (case decode_utf8 chunk of
                None \<Rightarrow> (Inl UnicodeDecodeError, t, q)
              | Some s \<Rightarrow> read_loop start_time (output @ s) t q)
         | (Eof, q) \<Rightarrow>
             (if output \<noteq> [] then (Inr output, t + poll_interval, q)
              else read_loop start_time output (t + poll_interval) q)
         | (BlockingIOError, q) \<Rightarrow>
             (if output \<noteq> [] then (Inr output, t, q)
              else read_loop start_time output (t + poll_interval) q))
      else (Inr output, t, p))"
  by pat_completeness auto
termination
  by (relation "measures [\<lambda>(s, out, t, p). s + timeout - t, \<lambda>(s, out, t, p). volume p]")
     (auto simp: poll_interval_def dest: os_read_chunk_volume)

definition get_output :: "world \<Rightarrow> string \<times> world" where
  "get_output w =
     (let start_time = now w in
      case output_pipe w of
        None \<Rightarrow> ([], print (ErrorReceiving FileNotFoundError) w)
      | Some Directory \<Rightarrow> ([], print (ErrorReceiving IsADirectoryError) w)
      | Some (Regular content) \<Rightarrow>
          (case read_loop start_time [] (now w)
                  \<lparr>reader = False, writer = False, buffered = content, pending = []\<rparr> of
             (Inl e, t, _) \<Rightarrow> ([], print (ErrorReceiving e) (w\<lparr>now := t\<rparr>))
           | (Inr output, t, _) \<Rightarrow>
               (output, print (if output \<noteq> [] then Received output else NoOutputTimeout)
                          (w\<lparr>now := t\<rparr>)))
      | Some (Fifo p) \<Rightarrow>
          (case read_loop start_time [] (now w) (open_fifo (now w) p) of
             (Inl e, t, q) \<Rightarrow>
               ([], print (ErrorReceiving e)
                      (w\<lparr>now := t, output_pipe := Some (Fifo (close_fifo q))\<rparr>))
           | (Inr output, t, q) \<Rightarrow>
               (output, print (if output \<noteq> [] then Received output else NoOutputTimeout)
                          (w\<lparr>now := t, output_pipe := Some (Fifo (close_fifo q))\<rparr>))))"

subsection \<open>\<open>check_status\<close>\<close>

text \<open>
  The dictionary \<open>status_info\<close>: its four initial keys, and the three keys that are
  added only on some paths.
\<close>

record status_info =
  input_channel :: bool
  output_channel :: bool
  process :: bool
  overall_status :: string
  si_command :: "string option"
  si_pid :: "pyvalue option"
  process_cmdline :: "string option"

fun join :: "string \<Rightarrow> string list \<Rightarrow> string" where
  "join sep [] = []"
| "join sep [x] = x"
| "join sep (x # y # ys) = x @ sep @ join sep (y # ys)"

text \<open>
  Reading the session file: the \<open>try\<close> block that both \<open>check_status\<close> and
  \<open>end_interaction\<close> run when no identifier was passed and the file exists. It gives the
  values of \<open>pid\<close> and \<open>command\<close> in the JSON object, or nothing when an exception was
  swallowed.
\<close>

definition load_session :: "world \<Rightarrow> (pyvalue \<times> string option) option" where
  "load_session w =
     (case session_file w of
        Some (SessionFile (Record p c _)) \<Rightarrow>
          Some (case p of None \<Rightarrow> PyNone | Some n \<Rightarrow> PyInt n, c)
      | Some (SessionFile (OddRecord b c _)) \<Rightarrow> Some (PyOther b, c)
      | _ \<Rightarrow> None)"

text \<open>The argument \<open>pid\<close> as \<open>main\<close> passes it: \<open>None\<close> or an integer.\<close>

definition argument :: "int option \<Rightarrow> pyvalue" where
  "argument pid0 = (case pid0 of None \<Rightarrow> PyNone | Some n \<Rightarrow> PyInt n)"

text \<open>Python's truth value of \<open>pid\<close>: \<open>None\<close> and \<open>0\<close> are false.\<close>

definition truthy :: "pyvalue \<Rightarrow> bool" where
  "truthy p = (case p of PyNone \<Rightarrow> False | PyInt n \<Rightarrow> n \<noteq> 0 | PyOther b \<Rightarrow> b)"

text \<open>
  \<open>psutil.Process(pid)\<close>: \<open>TypeError\<close> when \<open>pid\<close> is not an integer, \<open>ValueError\<close> when
  it is negative; otherwise the handle, or one of the exceptions of \<open>psutil\<close>. With
  \<open>None\<close> it is the handle of the run itself.
\<close>

definition psutil_Process :: "pyvalue \<Rightarrow> world \<Rightarrow> exn + (psutil_error + process)" where
  "psutil_Process p w =
     (case p of
        PyNone \<Rightarrow> Inr (procs w (self_pid w))
      | PyOther _ \<Rightarrow> Inl TypeError
      | PyInt n \<Rightarrow> if n < 0 then Inl ValueError else Inr (procs w n))"

text \<open>
  The \<open>try\<close> block of \<open>check_status\<close> around the process. Its \<open>except\<close> clause names
  the three exceptions of \<open>psutil\<close>; a \<open>ValueError\<close> or \<open>TypeError\<close> leaves the function.
\<close>

definition probe_process :: "pyvalue \<Rightarrow> world \<Rightarrow> status_info \<Rightarrow> exn + status_info" where
  "probe_process p w si =
     (case psutil_Process p w of
        Inl e \<Rightarrow> Inl e
      | Inr (Inl _) \<Rightarrow> Inr si
      | Inr (Inr pr) \<Rightarrow>
          Inr (if is_running pr then
                 (case status pr of
                    Inl _ \<Rightarrow> si
                  | Inr st \<Rightarrow>
                      if st \<noteq> ''zombie'' then
                        (let si1 = si\<lparr>process := True, si_pid := Some p\<rparr> in
                         case cmdline pr of
                           Inl _ \<Rightarrow> si1
                         | Inr cl \<Rightarrow> si1\<lparr>process_cmdline := Some (join '' '' cl)\<rparr>)
                      else si)
               else si))"

definition report :: "pyvalue \<Rightarrow> status_info \<Rightarrow> line list" where
  "report p si =
     [StatusHeader, InputChannelLine (input_channel si), OutputChannelLine (output_channel si)] @
     (if truthy p then
        [CommandLine p (process si)] @
        (if process si then
           (case si_command si of None \<Rightarrow> [] | Some c \<Rightarrow> [RunningLine c]) @
           (case process_cmdline si of None \<Rightarrow> [] | Some c \<Rightarrow> [CommandLineLine c])
         else [])
      else [CommandNotSpecified]) @
     [OverallStatus (overall_status si)]"

text \<open>
  The value of \<open>pid\<close> once the session file has been consulted: the argument, unless it
  is \<open>None\<close> and the file exists and loads, and then the \<open>pid\<close> of the file.
\<close>

definition pid_in_play :: "int option \<Rightarrow> world \<Rightarrow> pyvalue" where
  "pid_in_play pid0 w =
     (if pid0 = None \<and> path_exists (session_file w) then
        (case load_session w of None \<Rightarrow> argument pid0 | Some (rp, _) \<Rightarrow> rp)
      else argument pid0)"

text \<open>
  \<open>status_info\<close> before the process is looked at: the initial dictionary, the two
  channels, and \<open>command\<close> when the session file was loaded.
\<close>

definition initial_info :: "int option \<Rightarrow> world \<Rightarrow> status_info" where
  "initial_info pid0 w =
     (let si0 = \<lparr>input_channel = False, output_channel = False, process = False,
                 overall_status = ''unhealthy'', si_command = None, si_pid = None,
                 process_cmdline = None\<rparr>;
          si1 = (if path_exists (input_pipe w) then si0\<lparr>input_channel := True\<rparr> else si0);
          si2 = (if path_exists (output_pipe w) then si1\<lparr>output_channel := True\<rparr> else si1)
      in if pid0 = None \<and> path_exists (session_file w) then
           (case load_session w of
              None \<Rightarrow> si2
            | Some (_, rc) \<Rightarrow>
                si2\<lparr>si_command := Some (case rc of None \<Rightarrow> ''unknown'' | Some c \<Rightarrow> c)\<rparr>)
         else si2)"

definition check_status :: "int option \<Rightarrow> world \<Rightarrow> (exn + status_info) \<times> world" where
  "check_status pid0 w =
     (let p = pid_in_play pid0 w;
          si3 = initial_info pid0 w
      in case (if truthy p then probe_process p w si3 else Inr si3) of
           Inl e \<Rightarrow> (Inl e, w)
         | Inr si4 \<Rightarrow>
             (let si5 = (if input_channel si4 \<and> output_channel si4 then
                           (if p = PyNone \<or> process si4 then si4\<lparr>overall_status := ''healthy''\<rparr>
                            else si4)
                         else si4)
              in (Inr si5, w\<lparr>stdout := stdout w @ report p si5\<rparr>)))"

subsection \<open>\<open>end_interaction\<close>\<close>

text \<open>
  \<open>psutil.Process(pid).terminate()\<close> goes through when the handle is made and the signal
  is sent; \<open>os.kill(pid, signal.SIGKILL)\<close> raises \<open>TypeError\<close> when \<open>pid\<close> is not an
  integer and otherwise succeeds as the world says.
\<close>

definition psutil_terminate :: "pyvalue \<Rightarrow> world \<Rightarrow> bool" where
  "psutil_terminate p w =
     (case psutil_Process p w of
        Inr (Inr pr) \<Rightarrow> terminate pr = None
      | _ \<Rightarrow> False)"

definition os_kill :: "pyvalue \<Rightarrow> world \<Rightarrow> bool" where
  "os_kill p w = (case p of PyInt n \<Rightarrow> kill_ok w n | _ \<Rightarrow> False)"

text \<open>
  A signal that is sent reaches the run itself when its target is the run's own process,
  or, the target being negative, the run's own process group.
\<close>

definition hits_self :: "pyvalue \<Rightarrow> world \<Rightarrow> bool" where
  "hits_self p w = (case p of PyInt n \<Rightarrow> n = self_pid w \<or> n = - self_pgid w | _ \<Rightarrow> False)"

definition target :: "pyvalue \<Rightarrow> int" where
  "target p = (case p of PyInt n \<Rightarrow> n | _ \<Rightarrow> 0)"

text \<open>
  The nested \<open>try\<close> blocks of \<open>end_interaction\<close> around the process. The world keeps the
  signals that were sent. \<open>SIGTERM\<close> and \<open>SIGKILL\<close> end a run that they reach: the
  result \<open>Inl\<close> is the run killed by that signal, before anything else is done.
\<close>

definition terminate_process :: "pyvalue \<Rightarrow> world \<Rightarrow> (signal + unit) \<times> world" where
  "terminate_process p w =
     (if psutil_terminate p w then
        (let w1 = w\<lparr>signals := signals w @ [(target p, SIGTERM)]\<rparr> in
         if hits_self p w then (Inl SIGTERM, w1) else (Inr (), print (Terminated p) w1))
      else if os_kill p w then
        (let w1 = w\<lparr>signals := signals w @ [(target p, SIGKILL)]\<rparr> in
         if hits_self p w then (Inl SIGKILL, w1) else (Inr (), print (ForceTerminated p) w1))
      else (Inr (), print (FailedToTerminate p) w))"

definition remove_session :: "world \<Rightarrow> world" where
  "remove_session w =
     (if path_exists (session_file w) then
        (case os_unlink_session (cwd_writable w) (session_file w) of
           Inl _ \<Rightarrow> w
         | Inr n \<Rightarrow> w\<lparr>session_file := n\<rparr>)
      else w)"

definition remove_channels :: "world \<Rightarrow> world" where
  "remove_channels w =
     (case (if path_exists (input_pipe w)
            then map_sum id (\<lambda>n. w\<lparr>input_pipe := n\<rparr>) (os_unlink (cwd_writable w) (input_pipe w))
            else Inr w) of
        Inl e \<Rightarrow> print (ErrorEnding e) w
      | Inr w1 \<Rightarrow>
          (case (if path_exists (output_pipe w1)
                 then map_sum id (\<lambda>n. w1\<lparr>output_pipe := n\<rparr>)
                        (os_unlink (cwd_writable w1) (output_pipe w1))
                 else Inr w1) of
             Inl e \<Rightarrow> print (ErrorEnding e) w1
           | Inr w2 \<Rightarrow> print SessionEnded w2))"

definition end_interaction :: "int option \<Rightarrow> world \<Rightarrow> (signal + unit) \<times> world" where
  "end_interaction pid0 w =
     (let p = pid_in_play pid0 w
      in case (if truthy p then terminate_process p w else (Inr (), w)) of
           (Inl sg, w1) \<Rightarrow> (Inl sg, w1)
         | (Inr _, w1) \<Rightarrow> (Inr (), remove_channels (remove_session w1)))"

subsection \<open>\<open>main\<close>\<close>

text \<open>
  A reader of ASCII decimal numerals, for the worlds below that need some \<open>py_int\<close>:
  surrounding white space (the characters 9 to 13 and 32), an optional sign, then decimal
  digits, where single underscores may stand between digits. No theorem about every world
  depends on it.
\<close>

definition is_space :: "char \<Rightarrow> bool" where
  "is_space c = (byte_in 9 13 c \<or> byte_in 32 32 c)"

definition is_digit :: "char \<Rightarrow> bool" where
  "is_digit c = byte_in 48 57 c"

fun parse_digits :: "bool \<Rightarrow> int \<Rightarrow> string \<Rightarrow> int option" where
  "parse_digits prev acc [] = (if prev then Some acc else None)"
| "parse_digits prev acc (c # cs) =
     (if is_digit c then parse_digits True (10 * acc + (int (of_char c) - 48)) cs
      else if c = CHR ''_'' \<and> prev then parse_digits False acc cs
      else None)"

definition ascii_int :: "string \<Rightarrow> int option" where
  "ascii_int s =
     (case rev (dropWhile is_space (rev (dropWhile is_space s))) of
        [] \<Rightarrow> None
      | c # cs \<Rightarrow>
          if c = CHR ''-'' then map_option uminus (parse_digits False 0 cs)
          else if c = CHR ''+'' then parse_digits False 0 cs
          else parse_digits False 0 (c # cs))"

text \<open>
  The exit status of the interpreter: 0 when \<open>main\<close> returns, the argument of
  \<open>sys.exit\<close>, and 1 when another exception reaches the top. A run that a signal kills
  has the status that the shell reports for it, 128 plus the number of the signal.
\<close>

definition exit_code :: "exn + 'a \<Rightarrow> nat" where
  "exit_code r = (case r of Inr _ \<Rightarrow> 0 | Inl (SystemExit n) \<Rightarrow> n | Inl _ \<Rightarrow> 1)"

definition signal_number :: "signal \<Rightarrow> nat" where
  "signal_number sg = (case sg of SIGTERM \<Rightarrow> 15 | SIGKILL \<Rightarrow> 9)"

definition killed_code :: "signal + 'a \<Rightarrow> nat" where
  "killed_code r = (case r of Inr _ \<Rightarrow> 0 | Inl sg \<Rightarrow> 128 + signal_number sg)"

text \<open>The \<open>pid\<close> argument of \<open>status\<close> and \<open>end\<close>.\<close>

definition pid_argument :: "string list \<Rightarrow> world \<Rightarrow> int option \<times> world" where
  "pid_argument argv w =
     (if length argv \<ge> 3 then
        (case py_int w (argv ! 2) of
           Some n \<Rightarrow> (Some n, w)
         | None \<Rightarrow> (None, print (InvalidPidFormat (argv ! 2)) w))
      else (None, w))"

text \<open>
  One run of the script with \<open>sys.argv = argv\<close>: the exit status and the world it
  leaves, or \<open>None\<close> when the run never ends.
\<close>

definition main :: "string list \<Rightarrow> world \<Rightarrow> (nat \<times> world) option" where
  "main argv w =
     (if length argv < 2 then Some (1, print Usage w)
      else
        (let action = argv ! 1 in
         if action = ''setup'' then
           (case setup_interaction w of (r, w1) \<Rightarrow> Some (exit_code r, w1))
         else if action = ''start'' then
           (let command = (if length argv \<ge> 3 then Some (argv ! 2) else None) in
            case start_interactive_command command w of (r, w1) \<Rightarrow> Some (exit_code r, w1))
         else if action = ''send'' then
           (if length argv < 3 then Some (1, print MissingInput w)
            else map_option (\<lambda>(_, w1). (0, w1)) (send_input (argv ! 2) w))
         else if action = ''receive'' then
           (case get_output w of (_, w1) \<Rightarrow> Some (0, w1))
         else if action = ''status'' then
           (case pid_argument argv w of
              (p, w1) \<Rightarrow> (case check_status p w1 of (r, w2) \<Rightarrow> Some (exit_code r, w2)))
         else if action = ''end'' then
           (case pid_argument argv w of
              (p, w1) \<Rightarrow> (case end_interaction p w1 of (r, w2) \<Rightarrow> Some (killed_code r, w2)))
         else Some (1, print AvailableActions (print (UnknownAction action) w))))"


subsection \<open>Some worlds\<close>

text \<open>
  An empty, writable working directory, no process known, the shell installed; the run is
  process 7000 in its own group.
\<close>

definition fresh :: world where
  "fresh =
     \<lparr>input_pipe = None, output_pipe = None, session_file = None, cwd_writable = True,
      now = 0, procs = (\<lambda>_. Inl NoSuchProcess), kill_ok = (\<lambda>_. False), signals = [],
      zsh = Some 4242, programs = (\<lambda>_. False), self_pid = 7000, self_pgid = 7000,
      py_int = ascii_int, stdout = []\<rparr>"

definition idle_pipe :: pipe where
  "idle_pipe = \<lparr>reader = False, writer = False, buffered = [], pending = []\<rparr>"

text \<open>The same directory after \<open>setup\<close>.\<close>

definition ready :: world where
  "ready = fresh\<lparr>input_pipe := Some (Fifo idle_pipe), output_pipe := Some (Fifo idle_pipe)\<rparr>"

subsection \<open>The words of the specification\<close>

text \<open>
  The identifier that a status report is about, as the specification says it: the one
  supplied, else the one recorded in the session file, else none.
\<close>

definition recorded_pid :: "world \<Rightarrow> int option" where
  "recorded_pid w = (case session_file w of Some (SessionFile (Record p _ _)) \<Rightarrow> p | _ \<Rightarrow> None)"

definition resolved_pid :: "int option \<Rightarrow> world \<Rightarrow> int option" where
  "resolved_pid supplied w = (case supplied of Some n \<Rightarrow> Some n | None \<Rightarrow> recorded_pid w)"

text \<open>The session file holds no \<open>pid\<close> that is neither an integer nor \<open>null\<close>.\<close>

definition well_formed_record :: "world \<Rightarrow> bool" where
  "well_formed_record w =
     (case session_file w of Some (SessionFile (OddRecord _ _ _)) \<Rightarrow> False | _ \<Rightarrow> True)"

text \<open>The process is reported as running and is not a zombie.\<close>

definition alive :: "world \<Rightarrow> int \<Rightarrow> bool" where
  "alive w n =
     (case procs w n of
        Inl _ \<Rightarrow> False
      | Inr pr \<Rightarrow> is_running pr \<and> (case status pr of Inl _ \<Rightarrow> False | Inr st \<Rightarrow> st \<noteq> ''zombie''))"

text \<open>
  The verdict of the specification: both channels present, and no identifier supplied or
  recorded, or the identified process alive.
\<close>

definition healthy_spec :: "int option \<Rightarrow> world \<Rightarrow> bool" where
  "healthy_spec supplied w =
     (path_exists (input_pipe w) \<and> path_exists (output_pipe w) \<and>
      (case resolved_pid supplied w of None \<Rightarrow> True | Some n \<Rightarrow> alive w n))"

text \<open>
  A system on which process 0 exists and runs (the kernel's own process, as on macOS, the
  platform of \<open>/bin/zsh\<close>), after \<open>setup\<close>.
\<close>

definition kernel_task :: process where
  "kernel_task = \<lparr>is_running = True, status = Inr ''running'', cmdline = Inl AccessDenied,
                   terminate = Some AccessDenied\<rparr>"

definition with_kernel :: world where
  "with_kernel = ready\<lparr>procs := (\<lambda>n. if n = 0 then Inr kernel_task else Inl NoSuchProcess)\<rparr>"

text \<open>The process that \<open>start\<close> leaves behind for a command: the shell running it.\<close>

definition shell :: "string \<Rightarrow> process" where
  "shell cmd = \<lparr>is_running = True, status = Inr ''sleeping'',
                cmdline = Inr [''/bin/zsh'', ''-c'', cmd @ '' < input_pipe > output_pipe''],
                terminate = None\<rparr>"


text \<open>A running session: after \<open>setup\<close> and \<open>start "cat"\<close>.\<close>

definition running :: world where
  "running = ready\<lparr>session_file := Some (SessionFile (Record (Some 4242) (Some ''cat'') 0)),
                   procs := (\<lambda>n. if n = 4242 then Inr (shell ''cat'') else Inl NoSuchProcess),
                   zsh := Some 4243\<rparr>"


text \<open>The same session where the name \<open>input_pipe\<close> is a directory.\<close>

definition blocked :: world where
  "blocked = running\<lparr>input_pipe := Some Directory\<rparr>"



text \<open>The pipe as \<open>k\<close> polls that found nothing leave it, the first poll at time \<open>t\<close>.\<close>

definition after_polls :: "nat \<Rightarrow> nat \<Rightarrow> pipe \<Rightarrow> pipe" where
  "after_polls t k p = (if k = 0 then p else deliver (t + (k - 1) * poll_interval) p)"

text \<open>
  After \<open>setup\<close>, a child that holds the output channel open has written \<open>A\<close> and will
  write \<open>B\<close> two seconds from now.
\<close>

definition burst :: world where
  "burst = ready\<lparr>output_pipe := Some (Fifo \<lparr>reader = False, writer = True, buffered = ''A'',
                                              pending = [(2000, ''B'')]\<rparr>)\<rparr>"




section \<open>Properties\<close>


subsection \<open>\<open>setup_interaction\<close> is idempotent\<close>



subsection \<open>\<open>check_status\<close> only reads\<close>

text \<open>
  C9. For every argument and every world, \<open>check_status\<close> leaves the two channels, the
  session file, the process table and the signals sent as they were: the world it returns
  differs from the one it was given in the printed output only.
\<close>

theorem check_status_pure_read:
  "snd (check_status p w) = w\<lparr>stdout := stdout (snd (check_status p w))\<rparr> \<and>
   input_pipe (snd (check_status p w)) = input_pipe w \<and>
   output_pipe (snd (check_status p w)) = output_pipe w \<and>
   session_file (snd (check_status p w)) = session_file w \<and>
   procs (snd (check_status p w)) = procs w \<and>
   signals (snd (check_status p w)) = signals w"
  by (simp add: check_status_def Let_def split: sum.split)

subsection \<open>The verdict of \<open>check_status\<close>\<close>

lemma initial_info_simps:
  "input_channel (initial_info pid0 w) = path_exists (input_pipe w)"
  "output_channel (initial_info pid0 w) = path_exists (output_pipe w)"
  "process (initial_info pid0 w) = False"
  "overall_status (initial_info pid0 w) = ''unhealthy''"
  by (simp_all add: initial_info_def Let_def split: option.split prod.split)

lemma probe_process_int:
  assumes "0 \<le> n"
  shows "\<exists>si'. probe_process (PyInt n) w si = Inr si' \<and>
           process si' = (process si \<or> alive w n) \<and>
           input_channel si' = input_channel si \<and> output_channel si' = output_channel si \<and>
           overall_status si' = overall_status si"
  using assms
  by (simp add: probe_process_def psutil_Process_def alive_def Let_def split: sum.split)

lemma pid_in_play_resolved:
  assumes "supplied = None \<longrightarrow> well_formed_record w"
  shows "pid_in_play supplied w =
           (case resolved_pid supplied w of None \<Rightarrow> PyNone | Some n \<Rightarrow> PyInt n)"
  using assms
  by (cases supplied; cases "session_file w")
     (auto simp: pid_in_play_def resolved_pid_def recorded_pid_def load_session_def
        argument_def path_exists_def well_formed_record_def
        split: session_node.splits session_content.splits option.splits)

text \<open>
  As long as the identifier in play is positive, or there is none, and the session file
  holds no odd \<open>pid\<close>, \<open>check_status\<close> returns and the verdict is the one of the
  specification. A negative identifier makes \<open>psutil.Process\<close> raise \<open>ValueError\<close>,
  which leaves \<open>check_status\<close>.
\<close>

lemma check_status_verdict:
  assumes "supplied = None \<longrightarrow> well_formed_record w"
    and "\<forall>n. resolved_pid supplied w = Some n \<longrightarrow> 0 < n"
  shows "map_sum id overall_status (fst (check_status supplied w)) =
           Inr (if healthy_spec supplied w then ''healthy'' else ''unhealthy'')"
proof (cases "resolved_pid supplied w")
  case None
  with pid_in_play_resolved [OF assms(1)] have "pid_in_play supplied w = PyNone" by simp
  with None show ?thesis
    by (simp add: check_status_def Let_def truthy_def healthy_spec_def initial_info_simps)
next
  case (Some n)
  with assms(2) have n: "0 < n" by simp
  from Some pid_in_play_resolved [OF assms(1)] have p: "pid_in_play supplied w = PyInt n" by simp
  obtain si' where "probe_process (PyInt n) w (initial_info supplied w) = Inr si'"
    and "process si' = alive w n"
    and "input_channel si' = path_exists (input_pipe w)"
    and "output_channel si' = path_exists (output_pipe w)"
    and "overall_status si' = ''unhealthy''"
    using probe_process_int [of n w "initial_info supplied w"] n
    by (auto simp: initial_info_simps)
  with Some p n show ?thesis
    by (simp add: check_status_def Let_def truthy_def healthy_spec_def)
qed

lemma check_status_negative:
  assumes "n < 0"
  shows "check_status (Some n) w = (Inl ValueError, w)"
  using assms
  by (simp add: check_status_def Let_def truthy_def argument_def pid_in_play_def
        probe_process_def psutil_Process_def)

text \<open>
  C4. The claim fails for the identifier 0. \<open>if pid:\<close> takes 0 for "no identifier" and
  skips the liveness check, while \<open>pid is None\<close> in the verdict takes it for an
  identifier: with both channels present and process 0 alive, where the specification
  says healthy, the report says "Command: not specified" and "unhealthy".
\<close>

theorem check_status_pid_zero:
  "healthy_spec (Some 0) with_kernel \<and>
   map_sum id overall_status (fst (check_status (Some 0) with_kernel)) = Inr ''unhealthy'' \<and>
   stdout (snd (check_status (Some 0) with_kernel)) =
     [StatusHeader, InputChannelLine True, OutputChannelLine True, CommandNotSpecified,
      OverallStatus ''unhealthy'']"
  by (simp add: check_status_def Let_def healthy_spec_def resolved_pid_def alive_def
        with_kernel_def kernel_task_def ready_def fresh_def truthy_def argument_def
        pid_in_play_def initial_info_def path_exists_def report_def)

subsection \<open>\<open>end_interaction\<close>\<close>

lemma os_unlink_cases:
  "os_unlink wr n =
     (if n = None then Inl FileNotFoundError
      else if n = Some Directory then Inl IsADirectoryError
      else if wr then Inr None else Inl PermissionError)"
  by (simp add: os_unlink_def split: option.split node.split)

lemma os_unlink_session_cases:
  "os_unlink_session wr n =
     (if n = None then Inl FileNotFoundError
      else if n = Some SessionDir then Inl IsADirectoryError
      else if wr then Inr None else Inl PermissionError)"
  by (simp add: os_unlink_session_def split: option.split session_node.split)

lemma remove_channels_cases:
  "remove_channels w =
     (if input_pipe w = Some Directory then print (ErrorEnding IsADirectoryError) w
      else if input_pipe w \<noteq> None \<and> \<not> cwd_writable w then print (ErrorEnding PermissionError) w
      else if output_pipe w = Some Directory
        then print (ErrorEnding IsADirectoryError) (w\<lparr>input_pipe := None\<rparr>)
      else if output_pipe w \<noteq> None \<and> \<not> cwd_writable w
        then print (ErrorEnding PermissionError) (w\<lparr>input_pipe := None\<rparr>)
      else print SessionEnded (w\<lparr>input_pipe := None, output_pipe := None\<rparr>))"
  by (cases "input_pipe w"; cases "output_pipe w"; cases "cwd_writable w")
     (simp_all add: remove_channels_def os_unlink_cases path_exists_def print_def)

lemma remove_session_cases:
  "remove_session w =
     (if session_file w = Some SessionDir \<or> (session_file w \<noteq> None \<and> \<not> cwd_writable w) then w
      else w\<lparr>session_file := None\<rparr>)"
  by (cases "session_file w") (simp_all add: remove_session_def os_unlink_session_cases path_exists_def)

lemma terminate_process_files:
  "input_pipe (snd (terminate_process p w)) = input_pipe w \<and>
   output_pipe (snd (terminate_process p w)) = output_pipe w \<and>
   session_file (snd (terminate_process p w)) = session_file w \<and>
   cwd_writable (snd (terminate_process p w)) = cwd_writable w"
  by (simp add: terminate_process_def print_def Let_def)

lemma terminate_process_stdout: "\<exists>ls. stdout (snd (terminate_process p w)) = stdout w @ ls"
  by (simp add: terminate_process_def print_def Let_def)

lemma terminate_process_returns:
  "\<not> hits_self p w \<Longrightarrow> fst (terminate_process p w) = Inr ()"
  by (simp add: terminate_process_def Let_def)



text \<open>
  What \<open>end_interaction\<close> does after the process: either the run was killed and the
  directory is as it was, or the session file and then the channels are removed.
\<close>

lemma end_interaction_cases:
  "\<exists>w1. input_pipe w1 = input_pipe w \<and> output_pipe w1 = output_pipe w \<and>
        session_file w1 = session_file w \<and> cwd_writable w1 = cwd_writable w \<and>
        (\<exists>ls. stdout w1 = stdout w @ ls) \<and>
        ((\<exists>sg. end_interaction pid0 w = (Inl sg, w1) \<and> hits_self (pid_in_play pid0 w) w) \<or>
         end_interaction pid0 w = (Inr (), remove_channels (remove_session w1)))"
proof (cases "truthy (pid_in_play pid0 w)")
  case False
  then have "end_interaction pid0 w = (Inr (), remove_channels (remove_session w))"
    by (simp add: end_interaction_def)
  then show ?thesis by (intro exI [of _ w]) simp
next
  case True
  let ?t = "terminate_process (pid_in_play pid0 w) w"
  have files: "input_pipe (snd ?t) = input_pipe w \<and> output_pipe (snd ?t) = output_pipe w \<and>
        session_file (snd ?t) = session_file w \<and> cwd_writable (snd ?t) = cwd_writable w"
    by (rule terminate_process_files)
  have out: "\<exists>ls. stdout (snd ?t) = stdout w @ ls" by (rule terminate_process_stdout)
  show ?thesis
  proof (cases "fst ?t")
    case (Inl sg)
    then have "hits_self (pid_in_play pid0 w) w"
      using terminate_process_returns [of "pid_in_play pid0 w" w] by auto
    moreover from True Inl have "end_interaction pid0 w = (Inl sg, snd ?t)"
      by (cases "terminate_process (pid_in_play pid0 w) w") (simp add: end_interaction_def Let_def)
    ultimately show ?thesis using files out by (intro exI [of _ "snd ?t"]) simp
  next
    case (Inr u)
    with True have "end_interaction pid0 w = (Inr (), remove_channels (remove_session (snd ?t)))"
      by (cases "terminate_process (pid_in_play pid0 w) w") (simp add: end_interaction_def Let_def)
    then show ?thesis using files out by (intro exI [of _ "snd ?t"]) simp
  qed
qed



text \<open>
  Where the run survives its own signal, the session file is absent afterwards whenever
  it was absent or its deletion succeeds, whatever happens to the channels, and so is the
  input channel; the output channel is absent afterwards whenever that holds of it and
  the deletion of the input channel did not fail.
\<close>

lemma end_interaction_cleanup:
  assumes "fst (end_interaction pid0 w) = Inr ()"
  shows
  "((session_file w = None \<or> os_unlink_session (cwd_writable w) (session_file w) = Inr None) \<longrightarrow>
      session_file (snd (end_interaction pid0 w)) = None) \<and>
   ((input_pipe w = None \<or> os_unlink (cwd_writable w) (input_pipe w) = Inr None) \<longrightarrow>
      input_pipe (snd (end_interaction pid0 w)) = None \<and>
      ((output_pipe w = None \<or> os_unlink (cwd_writable w) (output_pipe w) = Inr None) \<longrightarrow>
         output_pipe (snd (end_interaction pid0 w)) = None))"
proof -
  obtain w1 where w1: "end_interaction pid0 w = (Inr (), remove_channels (remove_session w1))"
    "input_pipe w1 = input_pipe w" "output_pipe w1 = output_pipe w"
    "session_file w1 = session_file w" "cwd_writable w1 = cwd_writable w"
    using end_interaction_cases [of w pid0] assms by auto
  show ?thesis
    unfolding w1(1)
    using w1(2-5)
    by (simp add: remove_channels_cases remove_session_cases os_unlink_cases
          os_unlink_session_cases print_def)
qed

text \<open>
  C3. The claim fails where the deletion of the input channel fails (here the name is a
  directory): the deletion of the output channel is then not tried, although it would
  succeed, and the output channel is still there afterwards. The session file, which has
  a \<open>try\<close> block of its own, is deleted all the same.
\<close>

theorem end_interaction_skips_output:
  "input_pipe blocked = Some Directory \<and>
   os_unlink (cwd_writable blocked) (output_pipe blocked) = Inr None \<and>
   fst (end_interaction None blocked) = Inr () \<and>
   output_pipe (snd (end_interaction None blocked)) = Some (Fifo idle_pipe) \<and>
   session_file (snd (end_interaction None blocked)) = None \<and>
   stdout (snd (end_interaction None blocked)) =
     [Terminated (PyInt 4242), ErrorEnding IsADirectoryError]"
  by (simp add: end_interaction_def Let_def remove_channels_cases remove_session_cases
        terminate_process_def psutil_terminate_def psutil_Process_def hits_self_def target_def
        pid_in_play_def load_session_def truthy_def path_exists_def os_unlink_cases
        blocked_def running_def ready_def fresh_def shell_def print_def)

subsection \<open>A malformed \<open>pid\<close> argument\<close>







subsection \<open>\<open>send_input\<close>\<close>

text \<open>Where the input channel is a pipe that is being read, the line is appended to it.\<close>

lemma send_input_appends:
  assumes "input_pipe w = Some (Fifo p)" and "reader p"
  shows "send_input content w =
           Some ((), print (Sent content)
                       (w\<lparr>input_pipe := Some (Fifo (p\<lparr>buffered := buffered p @ content @ [CHR 0x0A]\<rparr>))\<rparr>))"
  using assms by (simp add: send_input_def write_input_def)

text \<open>
  C5. Where the input channel does not exist, \<open>send_input\<close> does not fail:
  \<open>open("input_pipe", "w")\<close> creates a regular file of that name, the line goes into it,
  the program prints "Sent" and exits with status 0.
\<close>

theorem send_input_missing_channel:
  "input_pipe fresh = None \<and>
   send_input ''hello'' fresh =
     Some ((), print (Sent ''hello'') (fresh\<lparr>input_pipe := Some (Regular (''hello'' @ [CHR 0x0A]))\<rparr>)) \<and>
   main [''AgentShell.py'', ''send'', ''hello''] fresh =
     Some (0, print (Sent ''hello'') (fresh\<lparr>input_pipe := Some (Regular (''hello'' @ [CHR 0x0A]))\<rparr>))"
  by (simp add: send_input_def write_input_def main_def fresh_def print_def)

subsection \<open>\<open>start_interactive_command\<close>\<close>







text \<open>
  C7, as stated, fails for the empty command: \<open>start ""\<close> passes the guard
  \<open>command is None\<close>, starts the shell, writes the session file and exits with status 0.
\<close>

theorem start_empty_command_counterexample:
  "main [''AgentShell.py'', ''start'', ''''] ready =
     Some (0,
      print (Started 4242 '''')
        (ready\<lparr>session_file := Some (SessionFile (Record (Some 4242) (Some '''') 0)),
               procs := (procs ready)(4242 := Inr (shell '''')),
               zsh := Some 4243\<rparr>))"
  by (simp add: main_def start_interactive_command_def popen_def write_session_def Let_def
        ready_def fresh_def print_def shell_def exit_code_def)

text \<open>
  C7, amended: the missing command. \<open>start\<close> without a command prints the error, exits
  with status 1 and changes nothing else: no process, no session file.
\<close>

theorem start_missing_command_rejected:
  "start_interactive_command None w = (Inl (SystemExit 1), print NoCommandSpecified w) \<and>
   main [prog, ''start''] w = Some (1, print NoCommandSpecified w) \<and>
   print NoCommandSpecified w = w\<lparr>stdout := stdout w @ [NoCommandSpecified]\<rparr>"
  by (simp add: main_def start_interactive_command_def exit_code_def print_def)

subsection \<open>\<open>get_output\<close>: the polling loop\<close>

declare read_loop.simps [simp del]




lemma concat_due_later:
  assumes "t \<le> t'" and "concat (map snd (filter (\<lambda>(u, _). u \<le> t) xs)) = []"
  shows "concat (map snd (filter (\<lambda>(u, _). u \<le> t') (filter (\<lambda>(u, _). \<not> u \<le> t) xs))) =
         concat (map snd (filter (\<lambda>(u, _). u \<le> t') xs))"
  using assms by (induction xs) (auto split: if_splits)

lemma filter_later:
  assumes "t \<le> (t'::nat)"
  shows "filter (\<lambda>(u, _). \<not> u \<le> t') (filter (\<lambda>(u, _). \<not> u \<le> t) xs) =
         filter (\<lambda>(u, _). \<not> u \<le> t') xs"
  using assms by (induction xs) auto

lemma deliver_after_idle:
  assumes "t \<le> t'" and "buffered (deliver t p) = []"
  shows "deliver t' (deliver t p) = deliver t' p"
proof -
  from assms(2) have b: "buffered p = []"
    and c: "concat (map snd (filter (\<lambda>(u, _). u \<le> t) (pending p))) = []"
    by (simp_all add: deliver_def)
  show ?thesis
    using b c concat_due_later [OF assms(1) c] filter_later [OF assms(1), of "pending p"]
    by (simp add: deliver_def)
qed


lemma idle_step:
  assumes "t - s < timeout" and "buffered (deliver t p) = []"
  shows "read_loop s [] t p = read_loop s [] (t + poll_interval) (deliver t p)"
  using assms by (simp add: read_loop.simps [of s "[]" t p] os_read_def Let_def)

lemma idle_polls:
  assumes "\<forall>i<k. buffered (deliver (t + i * poll_interval) p) = [] \<and> (t + i * poll_interval) - s < timeout"
  shows "read_loop s [] t p = read_loop s [] (t + k * poll_interval) (after_polls t k p)"
  using assms
proof (induction k)
  case 0
  then show ?case by (simp add: after_polls_def)
next
  case (Suc k)
  let ?tk = "t + k * poll_interval"
  from Suc have ih: "read_loop s [] t p = read_loop s [] ?tk (after_polls t k p)"
    and idle: "buffered (deliver ?tk p) = []" and inloop: "?tk - s < timeout"
    by simp_all
  have d: "deliver ?tk (after_polls t k p) = deliver ?tk p"
  proof (cases k)
    case 0
    then show ?thesis by (simp add: after_polls_def)
  next
    case (Suc j)
    with Suc.prems have "buffered (deliver (t + j * poll_interval) p) = []" by simp
    then show ?thesis
      using Suc by (simp add: after_polls_def deliver_after_idle)
  qed
  have "read_loop s [] ?tk (after_polls t k p) =
        read_loop s [] (?tk + poll_interval) (deliver ?tk (after_polls t k p))"
    using inloop idle d by (intro idle_step) simp_all
  moreover have "?tk + poll_interval = t + Suc k * poll_interval" by simp
  moreover have "after_polls t (Suc k) p = deliver ?tk p" by (simp add: after_polls_def)
  ultimately show ?case using ih d by metis
qed

lemma settled_deliver:
  assumes "filter (\<lambda>(u, _). u \<le> t) (pending q) = []"
  shows "deliver t q = q"
proof -
  have "filter (\<lambda>(u, _). \<not> u \<le> t) xs = xs" if "filter (\<lambda>(u, _). u \<le> t) xs = []"
    for xs :: "(nat \<times> bytes) list"
    using that by (induction xs) (auto split: if_splits)
  with assms show ?thesis by (simp add: deliver_def)
qed








lemma read_loop_timeout:
  assumes "\<forall>i<k. buffered (deliver (t + i * poll_interval) p) = [] \<and> (t + i * poll_interval) - s < timeout"
    and "\<not> (t + k * poll_interval) - s < timeout"
  shows "read_loop s [] t p = (Inr [], t + k * poll_interval, after_polls t k p)"
proof -
  have "read_loop s [] t p = read_loop s [] (t + k * poll_interval) (after_polls t k p)"
    using assms(1) by (rule idle_polls)
  also have "\<dots> = (Inr [], t + k * poll_interval, after_polls t k p)"
    using assms(2) by (simp add: read_loop.simps [of s "[]" "t + k * poll_interval"])
  finally show ?thesis .
qed

lemma read_loop_time:
  "s \<le> t \<Longrightarrow> t \<le> fst (snd (read_loop s out t p)) \<and>
     fst (snd (read_loop s out t p)) < max (Suc t) (s + timeout + poll_interval)"
proof (induction s out t p rule: read_loop.induct)
  case (1 s out t p)
  show ?case
  proof (cases "t - s < timeout")
    case False
    then show ?thesis by (simp add: read_loop.simps [of s out t p])
  next
    case True
    obtain r q where rq: "os_read t p = (r, q)" by (cases "os_read t p")
    show ?thesis
    proof (cases r)
      case (Chunk c)
      show ?thesis
      proof (cases "decode_utf8 c")
        case None
        with True rq Chunk show ?thesis by (simp add: read_loop.simps [of s out t p])
      next
        case (Some x)
        with True rq Chunk "1.IH"(1) "1.prems"
        show ?thesis by (simp add: read_loop.simps [of s out t p])
      qed
    next
      case Eof
      show ?thesis
      proof (cases "out = []")
        case False
        with True rq Eof "1.prems" show ?thesis
          by (simp add: read_loop.simps [of s out t p] poll_interval_def)
      next
        case e: True
        have "t + poll_interval \<le> fst (snd (read_loop s out (t + poll_interval) q)) \<and>
            fst (snd (read_loop s out (t + poll_interval) q))
              < max (Suc (t + poll_interval)) (s + timeout + poll_interval)"
          using True rq Eof e "1.IH"(2) "1.prems" by simp
        with True rq Eof e "1.prems" show ?thesis
          by (simp add: read_loop.simps [of s "[]" t p] poll_interval_def)
      qed
    next
      case BlockingIOError
      show ?thesis
      proof (cases "out = []")
        case False
        with True rq BlockingIOError "1.prems" show ?thesis
          by (simp add: read_loop.simps [of s out t p] poll_interval_def)
      next
        case e: True
        have "t + poll_interval \<le> fst (snd (read_loop s out (t + poll_interval) q)) \<and>
            fst (snd (read_loop s out (t + poll_interval) q))
              < max (Suc (t + poll_interval)) (s + timeout + poll_interval)"
          using True rq BlockingIOError e "1.IH"(3) "1.prems" by simp
        with True rq BlockingIOError e "1.prems" show ?thesis
          by (simp add: read_loop.simps [of s "[]" t p] poll_interval_def)
      qed
    qed
  qed
qed

lemma close_fifo_empty: "buffered q = [] \<Longrightarrow> close_fifo q = q"
  by (cases q) (simp add: close_fifo_def)

text \<open>On a channel that holds nothing and expects nothing, the call waits for the timeout.\<close>

lemma get_output_idle:
  assumes "output_pipe w = Some (Fifo p)"
    and "buffered (open_fifo (now w) p) = []" and "pending (open_fifo (now w) p) = []"
  shows "get_output w =
           ([], print NoOutputTimeout
                  (w\<lparr>now := now w + timeout, output_pipe := Some (Fifo (open_fifo (now w) p))\<rparr>))"
proof -
  let ?p = "open_fifo (now w) p"
  have d: "deliver t ?p = ?p" for t using assms(3) by (simp add: settled_deliver)
  have "read_loop (now w) [] (now w) ?p =
          (Inr [], now w + 30 * poll_interval, after_polls (now w) 30 ?p)"
    using assms(2) by (intro read_loop_timeout) (auto simp: d timeout_def poll_interval_def)
  then have r: "read_loop (now w) [] (now w) ?p = (Inr [], now w + timeout, ?p)"
    by (simp add: after_polls_def d timeout_def poll_interval_def)
  from assms(1,2) r show ?thesis
    by (simp add: get_output_def Let_def close_fifo_empty)
qed






subsection \<open>\<open>get_output\<close> returns within the timeout\<close>

lemma get_output_now:
  "\<exists>q. now (snd (get_output w)) = now w \<or>
       now (snd (get_output w)) = fst (snd (read_loop (now w) [] (now w) q))"
proof (cases "output_pipe w")
  case None
  then show ?thesis by (simp add: get_output_def print_def)
next
  case (Some n)
  show ?thesis
  proof (cases n)
    case (Fifo p)
    let ?p = "open_fifo (now w) p"
    obtain r t q where "read_loop (now w) [] (now w) ?p = (r, t, q)"
      by (cases "read_loop (now w) [] (now w) ?p") auto
    with Some Fifo have "now (snd (get_output w)) = fst (snd (read_loop (now w) [] (now w) ?p))"
      by (cases r) (simp_all add: get_output_def print_def)
    then show ?thesis by blast
  next
    case (Regular c)
    let ?p = "\<lparr>reader = False, writer = False, buffered = c, pending = []\<rparr>"
    obtain r t q where "read_loop (now w) [] (now w) ?p = (r, t, q)"
      by (cases "read_loop (now w) [] (now w) ?p") auto
    with Some Regular have "now (snd (get_output w)) = fst (snd (read_loop (now w) [] (now w) ?p))"
      by (cases r) (simp_all add: get_output_def print_def)
    then show ?thesis by blast
  next
    case Directory
    with Some show ?thesis by (simp add: get_output_def print_def)
  qed
qed

text \<open>
  C2. \<open>get_output\<close> is a total function: every call returns. The clock when it returns
  is less than one \<open>poll_interval\<close> past the timeout. On a channel where nothing is
  buffered and nothing will be written, the call returns the empty result exactly when
  the timeout has elapsed, and leaves the channel as it was.
\<close>

theorem get_output_terminates_within_timeout:
  "now w \<le> now (snd (get_output w)) \<and>
   now (snd (get_output w)) < now w + timeout + poll_interval \<and>
   (\<forall>p. output_pipe w = Some (Fifo p) \<and> buffered p = [] \<and> pending p = [] \<longrightarrow>
      fst (get_output w) = [] \<and> now (snd (get_output w)) = now w + timeout \<and>
      output_pipe (snd (get_output w)) = output_pipe w)"
proof (intro conjI allI impI)
  obtain q where "now (snd (get_output w)) = now w \<or>
      now (snd (get_output w)) = fst (snd (read_loop (now w) [] (now w) q))"
    using get_output_now by blast
  moreover have "now w \<le> fst (snd (read_loop (now w) [] (now w) q)) \<and>
        fst (snd (read_loop (now w) [] (now w) q)) < now w + timeout + poll_interval"
    using read_loop_time [of "now w" "now w" "[]" q] by (simp add: timeout_def poll_interval_def)
  ultimately show "now w \<le> now (snd (get_output w))"
    and "now (snd (get_output w)) < now w + timeout + poll_interval"
    by (auto simp: timeout_def poll_interval_def)
next
  fix p assume a: "output_pipe w = Some (Fifo p) \<and> buffered p = [] \<and> pending p = []"
  then have o: "open_fifo (now w) p = p" by (simp add: open_fifo_def)
  have r: "get_output w =
      ([], print NoOutputTimeout (w\<lparr>now := now w + timeout, output_pipe := Some (Fifo p)\<rparr>))"
    using get_output_idle [of w p] a o by simp
  from r show "fst (get_output w) = []" by simp
  from r show "now (snd (get_output w)) = now w + timeout" by (simp add: print_def)
  from a r show "output_pipe (snd (get_output w)) = output_pipe w" by (simp add: print_def)
qed

theorem get_output_terminates_within_timeout_witness:
  "output_pipe ready = Some (Fifo idle_pipe) \<and> buffered idle_pipe = [] \<and> pending idle_pipe = [] \<and>
   \<not> writer idle_pipe \<and>
   fst (get_output ready) = [] \<and> now (snd (get_output ready)) = 3000 \<and>
   now (snd (get_output burst)) < 3100"
  using get_output_terminates_within_timeout [of ready] get_output_terminates_within_timeout [of burst]
  by (simp add: ready_def fresh_def idle_pipe_def burst_def timeout_def poll_interval_def)

end
